theory Spec2Isabelle
  imports Complex_Main "HOL-Library.Signed_Division"
begin

section \<open>Host values, errors and the platform\<close>

text \<open>
  The model follows \<^verbatim>\<open>src/timer_thread.c\<close>.  A raise of the host (\<^verbatim>\<open>mrb_raise\<close>,
  \<^verbatim>\<open>mrb_sys_fail\<close>) is a value \<open>Inl e\<close>; every C function that can raise returns a sum.
  \<open>MemoryFault\<close> stands for the dereference of a null or dangling pointer, which the
  C code does not guard.
\<close>

datatype errno = EINVAL | EAGAIN

datatype mrb_error =
    ArgumentError string
  | RuntimeError string
  | TypeError string
  | NotImplementedError string
  | NoMethodError string
  | SystemCallError string errno
  | MemoryFault

text \<open>
  The values of the host language that reach the C functions.  A float carries a real
  number (NaN and the infinities have no counterpart here); a hash is its list of
  key/value pairs, read first match first.
\<close>

datatype mrb_value =
    Nil
  | Bool bool
  | Fixnum int
  | Float real
  | Symbol string
  | Str string
  | Hash "(mrb_value \<times> mrb_value) list"
  | Object

text \<open>
  What the C file takes from \<^verbatim>\<open>signal.h\<close>, \<^verbatim>\<open>time.h\<close> and the kernel.  \<open>sigdef\<close> gives the
  value of each signal macro that the table of the source tests with \<^verbatim>\<open>#ifdef\<close>, or
  \<open>None\<close> when the platform does not define it.  \<^verbatim>\<open>SIGINT\<close>, \<^verbatim>\<open>SIGALRM\<close>, \<^verbatim>\<open>SIGRTMIN\<close>,
  \<^verbatim>\<open>SIGRTMAX\<close> and \<^verbatim>\<open>CLOCK_REALTIME\<close> are used without a test, so every platform that
  compiles the file has them.  \<open>clocks\<close> lists the fixed clock ids for which the kernel
  creates a timer (the per-process CPU-clock ids, which are negative numbers made from a
  process id, are not modelled),
  \<open>timer_limit\<close> how many timers a process may hold, and \<open>has_SIGEV_THREAD\<close> says
  whether \<^verbatim>\<open>SIGEV_THREAD\<close> is defined.
\<close>

record platform =
  sigdef :: "string \<Rightarrow> int option"
  SIGINT :: int
  SIGALRM :: int
  SIGRTMIN :: int
  SIGRTMAX :: int
  CLOCK_REALTIME :: int
  clocks :: "int list"
  timer_limit :: nat
  has_SIGEV_THREAD :: bool

subsection \<open>C integers\<close>

text \<open>
  A C \<^verbatim>\<open>int\<close> has 32 bits and a \<^verbatim>\<open>long\<close> 64 (the LP64 model of the platforms that have
  POSIX timers).  Values are mathematical integers; \<open>to_int\<close> is the conversion
  \<^verbatim>\<open>(int)x\<close>, which keeps the low 32 bits, and \<open>int_add\<close> is \<^verbatim>\<open>+\<close> on two \<^verbatim>\<open>int\<close>s with the
  two's complement wrap-around.  The width of \<^verbatim>\<open>mrb_int\<close> is chosen by the host's build
  configuration (32 or 64 bits), so an \<^verbatim>\<open>mrb_int\<close> argument is any integer here and the
  conversions of the source are applied to it where the source applies them.
\<close>

definition is_int :: "int \<Rightarrow> bool" where
  "is_int x = (- (2 ^ 31) \<le> x \<and> x < 2 ^ 31)"

definition to_int :: "int \<Rightarrow> int" where
  "to_int x = signed_take_bit 31 x"

definition int_add :: "int \<Rightarrow> int \<Rightarrow> int" where
  "int_add a b = to_int (a + b)"

definition LONG_MAX :: int where
  "LONG_MAX = 2 ^ 63 - 1"

definition LONG_MIN :: int where
  "LONG_MIN = - (2 ^ 63)"

subsection \<open>C strings\<close>

text \<open>
  \<^verbatim>\<open>RSTRING_PTR\<close> and \<^verbatim>\<open>mrb_sym2name\<close> hand the C code a pointer that \<^verbatim>\<open>strcmp\<close>,
  \<^verbatim>\<open>strncmp\<close> and \<^verbatim>\<open>strtol\<close> read up to the first NUL byte.
\<close>

definition cstr :: "string \<Rightarrow> string" where
  "cstr s = takeWhile (\<lambda>c. c \<noteq> CHR 0x00) s"

definition isspace :: "char \<Rightarrow> bool" where
  "isspace c = (c = CHR '' '' \<or> (9 \<le> (of_char c :: int) \<and> (of_char c :: int) \<le> 13))"

definition digit_val :: "char \<Rightarrow> int option" where
  "digit_val c =
    (let n = (of_char c :: int)
     in if 48 \<le> n \<and> n \<le> 57 then Some (n - 48)
        else if 97 \<le> n \<and> n \<le> 122 then Some (n - 87)
        else if 65 \<le> n \<and> n \<le> 90 then Some (n - 55)
        else None)"

fun strtol_digits :: "int \<Rightarrow> int \<Rightarrow> string \<Rightarrow> int" where
  "strtol_digits base acc [] = acc"
| "strtol_digits base acc (c # cs) =
    (case digit_val c of
       None \<Rightarrow> acc
     | Some d \<Rightarrow> if d < base then strtol_digits base (acc * base + d) cs else acc)"

text \<open>
  \<^verbatim>\<open>strtol(nptr, NULL, 0)\<close> of the C library: leading white space, an optional sign,
  base 16 after \<^verbatim>\<open>0x\<close>, base 8 after \<^verbatim>\<open>0\<close>, base 10 otherwise, the longest run of digits
  of that base, and the result clamped to the range of \<^verbatim>\<open>long\<close>.  No digit gives 0.
\<close>

definition strtol :: "string \<Rightarrow> int" where
  "strtol nptr =
    (let s1 = dropWhile isspace nptr;
         neg = (take 1 s1 = ''-'');
         s2 = (if take 1 s1 = ''-'' \<or> take 1 s1 = ''+'' then drop 1 s1 else s1);
         hex = (take 2 s2 = ''0x'' \<or> take 2 s2 = ''0X'');
         base = (if hex then 16 else if take 1 s2 = ''0'' then 8 else 10);
         s3 = (if hex then drop 2 s2 else s2);
         n = strtol_digits base 0 s3
     in if neg then max (- n) LONG_MIN else min n LONG_MAX)"

section \<open>Signal directory\<close>

definition ifdef :: "platform \<Rightarrow> string \<Rightarrow> string \<Rightarrow> (string \<times> int) list" where
  "ifdef P macro signm = (case sigdef P macro of None \<Rightarrow> [] | Some signo \<Rightarrow> [(signm, signo)])"

text \<open>The table \<^verbatim>\<open>siglist\<close>, entry by entry, without its terminating \<^verbatim>\<open>{NULL, 0}\<close>.\<close>

definition siglist :: "platform \<Rightarrow> (string \<times> int) list" where
  "siglist P =
    [(''EXIT'', 0)]
    @ ifdef P ''SIGHUP'' ''HUP''
    @ [(''INT'', SIGINT P)]
    @ ifdef P ''SIGQUIT'' ''QUIT''
    @ ifdef P ''SIGILL'' ''ILL''
    @ ifdef P ''SIGTRAP'' ''TRAP''
    @ ifdef P ''SIGABRT'' ''ABRT''
    @ ifdef P ''SIGIOT'' ''IOT''
    @ ifdef P ''SIGEMT'' ''EMT''
    @ ifdef P ''SIGFPE'' ''FPE''
    @ ifdef P ''SIGKILL'' ''KILL''
    @ ifdef P ''SIGBUS'' ''BUS''
    @ ifdef P ''SIGSEGV'' ''SEGV''
    @ ifdef P ''SIGSYS'' ''SYS''
    @ ifdef P ''SIGPIPE'' ''PIPE''
    @ [(''ALRM'', SIGALRM P)]
    @ ifdef P ''SIGTERM'' ''TERM''
    @ ifdef P ''SIGURG'' ''URG''
    @ ifdef P ''SIGSTOP'' ''STOP''
    @ ifdef P ''SIGTSTP'' ''TSTP''
    @ ifdef P ''SIGCONT'' ''CONT''
    @ ifdef P ''SIGCHLD'' ''CHLD''
    @ (case sigdef P ''SIGCLD'' of
         Some signo \<Rightarrow> [(''CLD'', signo)]
       | None \<Rightarrow> ifdef P ''SIGCHLD'' ''CLD'')
    @ ifdef P ''SIGTTIN'' ''TTIN''
    @ ifdef P ''SIGTTOU'' ''TTOU''
    @ ifdef P ''SIGIO'' ''IO''
    @ ifdef P ''SIGXCPU'' ''XCPU''
    @ ifdef P ''SIGXFSZ'' ''XFSZ''
    @ ifdef P ''SIGVTALRM'' ''VTALRM''
    @ ifdef P ''SIGPROF'' ''PROF''
    @ ifdef P ''SIGWINCH'' ''WINCH''
    @ ifdef P ''SIGUSR1'' ''USR1''
    @ ifdef P ''SIGUSR2'' ''USR2''
    @ ifdef P ''SIGLOST'' ''LOST''
    @ ifdef P ''SIGMSG'' ''MSG''
    @ ifdef P ''SIGPWR'' ''PWR''
    @ ifdef P ''SIGPOLL'' ''POLL''
    @ ifdef P ''SIGDANGER'' ''DANGER''
    @ ifdef P ''SIGMIGRATE'' ''MIGRATE''
    @ ifdef P ''SIGPRE'' ''PRE''
    @ ifdef P ''SIGGRANT'' ''GRANT''
    @ ifdef P ''SIGRETRACT'' ''RETRACT''
    @ ifdef P ''SIGSOUND'' ''SOUND''
    @ ifdef P ''SIGINFO'' ''INFO''"

text \<open>The \<^verbatim>\<open>for\<close> loop of \<^verbatim>\<open>signm2signo\<close>: the first entry whose name is \<open>nm\<close>.\<close>

fun siglist_scan :: "(string \<times> int) list \<Rightarrow> string \<Rightarrow> int option" where
  "siglist_scan [] nm = None"
| "siglist_scan (sigs # rest) nm =
    (if fst sigs = nm then Some (snd sigs) else siglist_scan rest nm)"

definition signm2signo :: "platform \<Rightarrow> string \<Rightarrow> int" where
  "signm2signo P nm =
    (case siglist_scan (siglist P) nm of
       Some signo \<Rightarrow> signo
     | None \<Rightarrow>
         if nm = ''RT0'' then SIGRTMIN P
         else if take 2 nm = ''RT'' then
           (let ret = to_int (strtol (drop 2 nm))
            in if ret = 0 \<or> int_add (SIGRTMIN P) ret > SIGRTMAX P then 0
               else int_add (SIGRTMIN P) ret)
         else 0)"

text \<open>
  The label \<^verbatim>\<open>str_signal\<close> of \<^verbatim>\<open>mrb_to_signo\<close>.  \<^verbatim>\<open>memcmp("SIG", s, 3)\<close> is 0 exactly when
  the first three bytes of \<open>s\<close> are \<^verbatim>\<open>SIG\<close>: a shorter string differs from it at its NUL.
\<close>

definition str_signal :: "platform \<Rightarrow> string \<Rightarrow> mrb_error + int" where
  "str_signal P s0 =
    (let s = (if take 3 s0 = ''SIG'' then drop 3 s0 else s0);
         sig = signm2signo P s
     in if sig = 0 \<and> s \<noteq> ''EXIT'' then Inl (ArgumentError ''unsupported signal'')
        else Inr sig)"

text \<open>
  \<^verbatim>\<open>mrb_to_signo\<close>.  A value that is neither an integer, a symbol nor a string goes to
  \<^verbatim>\<open>mrb_string_type\<close>, which raises a type error for it.
\<close>

definition mrb_to_signo :: "platform \<Rightarrow> mrb_value \<Rightarrow> mrb_error + int" where
  "mrb_to_signo P vsig =
    (case vsig of
       Fixnum n \<Rightarrow>
         (let sig = to_int n
          in if sig < 0 \<or> sig \<ge> SIGRTMAX P
             then Inl (ArgumentError ''invalid signal number (%S)'')
             else Inr sig)
     | Symbol s \<Rightarrow> str_signal P (cstr s)
     | Str s \<Rightarrow> str_signal P (cstr s)
     | _ \<Rightarrow> Inl (TypeError ''expected String''))"

definition mrb_rtsignal_get :: "platform \<Rightarrow> int \<Rightarrow> mrb_error + mrb_value" where
  "mrb_rtsignal_get P idx =
    (if int_add (SIGRTMIN P) (to_int idx) > SIGRTMAX P
     then Inl (ArgumentError ''RTSignal indx too large'')
     else Inr (Fixnum (int_add (SIGRTMIN P) (to_int idx))))"

text \<open>
  A concrete platform for evaluation: Linux with glibc on x86-64, whose \<^verbatim>\<open>signal.h\<close>
  defines the macros below and whose real-time signals are 34 to 64.
\<close>

definition linux_sigdef :: "(string \<times> int) list" where
  "linux_sigdef =
    [(''SIGHUP'', 1), (''SIGQUIT'', 3), (''SIGILL'', 4), (''SIGTRAP'', 5), (''SIGABRT'', 6),
     (''SIGIOT'', 6), (''SIGFPE'', 8), (''SIGKILL'', 9), (''SIGBUS'', 7), (''SIGSEGV'', 11),
     (''SIGSYS'', 31), (''SIGPIPE'', 13), (''SIGTERM'', 15), (''SIGURG'', 23),
     (''SIGSTOP'', 19), (''SIGTSTP'', 20), (''SIGCONT'', 18), (''SIGCHLD'', 17),
     (''SIGCLD'', 17), (''SIGTTIN'', 21), (''SIGTTOU'', 22), (''SIGIO'', 29),
     (''SIGXCPU'', 24), (''SIGXFSZ'', 25), (''SIGVTALRM'', 26), (''SIGPROF'', 27),
     (''SIGWINCH'', 28), (''SIGUSR1'', 10), (''SIGUSR2'', 12), (''SIGPWR'', 30),
     (''SIGPOLL'', 29)]"

definition linux :: platform where
  "linux =
    \<lparr> sigdef = map_of linux_sigdef,
      SIGINT = 2,
      SIGALRM = 14,
      SIGRTMIN = 34,
      SIGRTMAX = 64,
      CLOCK_REALTIME = 0,
      clocks = [0, 1, 2, 3, 7, 11],
      timer_limit = 1024,
      has_SIGEV_THREAD = True \<rparr>"

section \<open>Kernel timers and the heap\<close>

record timespec =
  tv_sec :: int
  tv_nsec :: int

record itimerspec =
  it_value :: timespec
  it_interval :: timespec

text \<open>
  \<^verbatim>\<open>struct sigevent\<close>: \<open>ZEROED\<close> is the notify field after \<^verbatim>\<open>memset\<close>, before the code assigns
  it; \<open>sival_ptr\<close> is the address of the notification context, when one was allocated.
  The notify function is always \<^verbatim>\<open>mrb_timer_posix_thread_func\<close> and is left out.
\<close>

datatype notify = ZEROED | SIGEV_NONE | SIGEV_SIGNAL | SIGEV_THREAD

record sigevent =
  sigev_notify :: notify
  sigev_signo :: int
  sival_ptr :: "nat option"

datatype syscall =
    Timer_create int "sigevent option"
  | Timer_delete nat
  | Timer_settime nat itimerspec

record mrb_timer_posix_thread_param =
  param_signo :: int
  param_thread_id :: "nat option"

record mrb_timer_posix_data =
  timer_ptr :: nat
  timer_signo :: int
  clockid :: int
  thread_param_ptr :: "nat option"

text \<open>What a block of \<^verbatim>\<open>mrb_malloc\<close> holds; \<open>Uninit\<close> until the code writes it.\<close>

datatype block =
    Uninit
  | Timer_blk nat
  | Param_blk mrb_timer_posix_thread_param
  | Data_blk mrb_timer_posix_data

text \<open>
  The state outside the C functions: the live heap blocks by address, the live kernel
  timers by id, and the kernel calls made so far, oldest first.
\<close>

record world =
  heap :: "(nat \<times> block) list"
  next_addr :: nat
  timers :: "nat list"
  next_timer :: nat
  calls :: "syscall list"

definition mrb_malloc :: "world \<Rightarrow> nat \<times> world" where
  "mrb_malloc w =
    (next_addr w, w\<lparr>heap := (next_addr w, Uninit) # heap w, next_addr := Suc (next_addr w)\<rparr>)"

definition mrb_free :: "world \<Rightarrow> nat \<Rightarrow> world" where
  "mrb_free w p = w\<lparr>heap := filter (\<lambda>ab. fst ab \<noteq> p) (heap w)\<rparr>"

definition store :: "world \<Rightarrow> nat \<Rightarrow> block \<Rightarrow> world" where
  "store w p b = w\<lparr>heap := map (\<lambda>ab. if fst ab = p then (p, b) else ab) (heap w)\<rparr>"

definition load :: "world \<Rightarrow> nat \<Rightarrow> block option" where
  "load w p = map_of (heap w) p"

text \<open>
  The kernel, as far as the C code can observe it.  \<^verbatim>\<open>timer_create\<close> fails with
  \<^verbatim>\<open>EINVAL\<close> for a clock id it does not know and with \<^verbatim>\<open>EAGAIN\<close> when the process holds
  its limit of timers; \<^verbatim>\<open>timer_settime\<close> fails with \<^verbatim>\<open>EINVAL\<close> for a timer that is not
  live, a negative number of seconds, or nanoseconds outside 0 to 999,999,999.  Every
  call is logged, failed or not.
\<close>

definition timer_create :: "platform \<Rightarrow> world \<Rightarrow> int \<Rightarrow> sigevent option \<Rightarrow> (errno + nat) \<times> world" where
  "timer_create P w clk sevp =
    (let w1 = w\<lparr>calls := calls w @ [Timer_create clk sevp]\<rparr>
     in if clk \<notin> set (clocks P) then (Inl EINVAL, w1)
        else if timer_limit P \<le> length (timers w1) then (Inl EAGAIN, w1)
        else (Inr (next_timer w1),
              w1\<lparr>timers := next_timer w1 # timers w1, next_timer := Suc (next_timer w1)\<rparr>))"

definition timer_delete :: "world \<Rightarrow> nat \<Rightarrow> world" where
  "timer_delete w t =
    w\<lparr>timers := filter (\<lambda>x. x \<noteq> t) (timers w), calls := calls w @ [Timer_delete t]\<rparr>"

definition timespec_valid :: "timespec \<Rightarrow> bool" where
  "timespec_valid t = (0 \<le> tv_sec t \<and> 0 \<le> tv_nsec t \<and> tv_nsec t \<le> 999999999)"

definition timer_settime :: "world \<Rightarrow> nat \<Rightarrow> itimerspec \<Rightarrow> (errno + unit) \<times> world" where
  "timer_settime w t ts =
    (let w1 = w\<lparr>calls := calls w @ [Timer_settime t ts]\<rparr>
     in if t \<in> set (timers w1) \<and> timespec_valid (it_value ts) \<and> timespec_valid (it_interval ts)
        then (Inr (), w1) else (Inl EINVAL, w1))"

section \<open>Timer handle\<close>

text \<open>
  \<^verbatim>\<open>mrb_timer_posix_free\<close>: delete the kernel timer, then free the timer block, the
  notification context if there is one, and the data block.
\<close>

definition mrb_timer_posix_free :: "world \<Rightarrow> nat \<Rightarrow> mrb_error + world" where
  "mrb_timer_posix_free w p =
    (case load w p of
       Some (Data_blk d) \<Rightarrow>
         (case load w (timer_ptr d) of
            Some (Timer_blk t) \<Rightarrow>
              (let w1 = timer_delete w t;
                   w2 = mrb_free w1 (timer_ptr d);
                   w3 = (case thread_param_ptr d of
                           Some q \<Rightarrow> mrb_free w2 q
                         | None \<Rightarrow> w2)
               in Inr (mrb_free w3 p))
          | _ \<Rightarrow> Inl MemoryFault)
     | _ \<Rightarrow> Inl MemoryFault)"

definition hash_get :: "(mrb_value \<times> mrb_value) list \<Rightarrow> mrb_value \<Rightarrow> mrb_value" where
  "hash_get h k = (case map_of h k of Some v \<Rightarrow> v | None \<Rightarrow> Nil)"

definition MRB_TIMER_POSIX_KEY_SIGNO :: mrb_value where
  "MRB_TIMER_POSIX_KEY_SIGNO = Symbol ''signal''"

definition MRB_TIMER_POSIX_KEY_CLOCK_ID :: mrb_value where
  "MRB_TIMER_POSIX_KEY_CLOCK_ID = Symbol ''clock_id''"

definition MRB_TIMER_POSIX_KEY_THREAD_ID :: mrb_value where
  "MRB_TIMER_POSIX_KEY_THREAD_ID = Symbol ''thread_id''"

text \<open>Lines 294 to 309 of \<^verbatim>\<open>mrb_timer_posix_init\<close>: the \<^verbatim>\<open>signal\<close> option.\<close>

definition init_signal :: "platform \<Rightarrow> (mrb_value \<times> mrb_value) list \<Rightarrow> sigevent \<Rightarrow> mrb_error + sigevent" where
  "init_signal P h sev =
    (if map_of h MRB_TIMER_POSIX_KEY_SIGNO \<noteq> None then
       (let signo = hash_get h MRB_TIMER_POSIX_KEY_SIGNO
        in if signo = Nil then Inr (sev\<lparr>sigev_notify := SIGEV_NONE, sigev_signo := 0\<rparr>)
           else (case mrb_to_signo P signo of
                   Inl e \<Rightarrow> Inl e
                 | Inr sno \<Rightarrow>
                     if sno \<le> 0 then Inl (ArgumentError ''Invalid value for signal'')
                     else Inr (sev\<lparr>sigev_notify := SIGEV_SIGNAL, sigev_signo := sno\<rparr>)))
     else Inr sev)"

text \<open>Lines 311 to 315: the \<^verbatim>\<open>clock_id\<close> option; \<^verbatim>\<open>clockid_t\<close> is an \<^verbatim>\<open>int\<close>.\<close>

definition init_clock :: "platform \<Rightarrow> (mrb_value \<times> mrb_value) list \<Rightarrow> int" where
  "init_clock P h =
    (case hash_get h MRB_TIMER_POSIX_KEY_CLOCK_ID of
       Fixnum n \<Rightarrow> to_int n
     | _ \<Rightarrow> CLOCK_REALTIME P)"

text \<open>
  \<^verbatim>\<open>(pthread_t)mrb_float(thread_id_arg)\<close>, with \<^verbatim>\<open>pthread_t\<close> an unsigned 64-bit integer: the
  float truncated towards zero.  C leaves the conversion undefined when the truncated
  value is not in the range of the type, that is for a float at or below \<open>-1\<close> or at or
  above \<open>2 ^ 64\<close>; \<open>None\<close> stands for the unspecified thread id stored then.
\<close>

definition pthread_of_float :: "real \<Rightarrow> nat option" where
  "pthread_of_float f = (if - 1 < f \<and> f < 2 ^ 64 then Some (nat \<lfloor>f\<rfloor>) else None)"

text \<open>
  Lines 317 to 333: the \<^verbatim>\<open>thread_id\<close> option, compiled only where \<^verbatim>\<open>SIGEV_THREAD\<close> is
  defined.  The result is the notification descriptor, the address of the allocated
  context (\<open>param\<close>) if any, and the world.
\<close>

definition init_thread ::
  "platform \<Rightarrow> world \<Rightarrow> (mrb_value \<times> mrb_value) list \<Rightarrow> sigevent \<Rightarrow> sigevent \<times> nat option \<times> world" where
  "init_thread P w h sev =
    (if has_SIGEV_THREAD P then
       (case hash_get h MRB_TIMER_POSIX_KEY_THREAD_ID of
          Float f \<Rightarrow>
            (let (param, w1) = mrb_malloc w;
                 w2 = store w1 param
                        (Param_blk \<lparr>param_signo =
                                      (if sigev_signo sev = - 1 then SIGALRM P else sigev_signo sev),
                                    param_thread_id = pthread_of_float f\<rparr>)
             in (sev\<lparr>sigev_notify := SIGEV_THREAD, sival_ptr := Some param\<rparr>, Some param, w2))
        | _ \<Rightarrow> (sev, None, w))
     else (sev, None, w))"

text \<open>
  Lines 336 to 368: release what the handle held, allocate the data and timer blocks,
  create the kernel timer and fill in the data block.  The second component of the
  result is \<^verbatim>\<open>DATA_PTR(self)\<close> when the function is left.
\<close>

definition init_install ::
  "platform \<Rightarrow> world \<Rightarrow> nat option \<Rightarrow> int \<Rightarrow> sigevent \<Rightarrow> nat option
    \<Rightarrow> (mrb_error + unit) \<times> nat option \<times> world" where
  "init_install P w self clk sev param =
    (case (case self of None \<Rightarrow> Inr w | Some p \<Rightarrow> mrb_timer_posix_free w p) of
       Inl e \<Rightarrow> (Inl e, self, w)
     | Inr w1 \<Rightarrow>
         (let (data, w2) = mrb_malloc w1;
              (tp, w3) = mrb_malloc w2;
              (r, w4) = timer_create P w3 clk (if sigev_signo sev < 0 then None else Some sev)
          in case r of
               Inl e \<Rightarrow> (Inl (SystemCallError ''timer_create failed'' e), None, w4)
             | Inr t \<Rightarrow>
                 (let w5 = store w4 tp (Timer_blk t);
                      w6 = store w5 data
                             (Data_blk \<lparr>timer_ptr = tp,
                                       timer_signo =
                                         (if sigev_signo sev < 0 then SIGALRM P else sigev_signo sev),
                                       clockid = clk,
                                       thread_param_ptr = param\<rparr>)
                  in (Inr (), Some data, w6))))"

text \<open>
  \<^verbatim>\<open>mrb_timer_posix_init\<close>.  \<open>self\<close> is \<^verbatim>\<open>DATA_PTR(self)\<close> on entry; \<open>options\<close> is the
  optional argument, \<open>Nil\<close> when it is absent.
\<close>

definition mrb_timer_posix_init ::
  "platform \<Rightarrow> world \<Rightarrow> nat option \<Rightarrow> mrb_value \<Rightarrow> (mrb_error + unit) \<times> nat option \<times> world" where
  "mrb_timer_posix_init P w self options =
    (let sev0 = \<lparr>sigev_notify = ZEROED, sigev_signo = - 1, sival_ptr = None\<rparr>
     in case options of
          Hash h \<Rightarrow>
            (case init_signal P h sev0 of
               Inl e \<Rightarrow> (Inl e, self, w)
             | Inr sev1 \<Rightarrow>
                 (let clk = init_clock P h;
                      (sev2, param, w1) = init_thread P w h sev1
                  in init_install P w1 self clk sev2 param))
        | _ \<Rightarrow> init_install P w self (CLOCK_REALTIME P) sev0 None)"

text \<open>\<^verbatim>\<open>mrb_set_itimerspec\<close>; \<open>None\<close> is its return value \<open>-1\<close>.  \<^verbatim>\<open>ts\<close> is never null.\<close>

definition mrb_set_itimerspec :: "int \<Rightarrow> int \<Rightarrow> int \<Rightarrow> int \<Rightarrow> itimerspec option" where
  "mrb_set_itimerspec start start_nsec interval interval_nsec =
    (if start < 0 \<or> interval < 0 then None
     else Some \<lparr>it_value = \<lparr>tv_sec = start, tv_nsec = start_nsec\<rparr>,
                it_interval = \<lparr>tv_sec = interval, tv_nsec = interval_nsec\<rparr>\<rparr>)"

text \<open>\<^verbatim>\<open>*(data->timer_ptr)\<close> for \<^verbatim>\<open>data = DATA_PTR(self)\<close>.\<close>

definition timer_of :: "world \<Rightarrow> nat option \<Rightarrow> nat option" where
  "timer_of w self =
    (case self of
       None \<Rightarrow> None
     | Some p \<Rightarrow>
         (case load w p of
            Some (Data_blk d) \<Rightarrow>
              (case load w (timer_ptr d) of Some (Timer_blk t) \<Rightarrow> Some t | _ \<Rightarrow> None)
          | _ \<Rightarrow> None))"

definition settime_or_fail :: "world \<Rightarrow> nat option \<Rightarrow> itimerspec \<Rightarrow> (mrb_error + unit) \<times> world" where
  "settime_or_fail w self ts =
    (case timer_of w self of
       None \<Rightarrow> (Inl MemoryFault, w)
     | Some t \<Rightarrow>
         (case timer_settime w t ts of
            (Inl e, w1) \<Rightarrow> (Inl (SystemCallError ''timer_settime'' e), w1)
          | (Inr u, w1) \<Rightarrow> (Inr (), w1)))"

text \<open>
  \<^verbatim>\<open>mrb_timer_posix_start\<close>.  \<open>interval\<close> is the optional second argument; the C variable
  keeps its initial value \<open>-1\<close> when it is absent.  \<^verbatim>\<open>/\<close> and \<^verbatim>\<open>%\<close> of C truncate
  towards zero (\<open>sdiv\<close>, \<open>smod\<close>); the product with 1,000,000 is below \<open>2 ^ 31\<close> in
  absolute value, so no operation overflows.
\<close>

definition mrb_timer_posix_start ::
  "world \<Rightarrow> nat option \<Rightarrow> int \<Rightarrow> int option \<Rightarrow> (mrb_error + unit) \<times> world" where
  "mrb_timer_posix_start w self start interval_arg =
    (let interval = (case interval_arg of None \<Rightarrow> - 1 | Some i \<Rightarrow> i);
         s_sec = start sdiv 1000;
         s_nsec = (start smod 1000) * 1000000;
         i_sec = (if interval \<ge> 0 then interval sdiv 1000 else 0);
         i_nsec = (if interval \<ge> 0 then (interval smod 1000) * 1000000 else 0)
     in case mrb_set_itimerspec s_sec s_nsec i_sec i_nsec of
          None \<Rightarrow> (Inl (ArgumentError ''Values must be 0 or positive''), w)
        | Some ts \<Rightarrow> settime_or_fail w self ts)"

definition mrb_timer_posix_stop :: "world \<Rightarrow> nat option \<Rightarrow> (mrb_error + unit) \<times> world" where
  "mrb_timer_posix_stop w self =
    (case mrb_set_itimerspec 0 0 0 0 of
       None \<Rightarrow> (Inl (ArgumentError ''Invalid value for stop''), w)
     | Some ts \<Rightarrow> settime_or_fail w self ts)"

text \<open>\<^verbatim>\<open>mrb_timer_posix_signo\<close>; \<open>Nil\<close> is the host's "none".\<close>

definition mrb_timer_posix_signo :: "world \<Rightarrow> nat option \<Rightarrow> mrb_error + mrb_value" where
  "mrb_timer_posix_signo w self =
    (case self of
       None \<Rightarrow> Inl MemoryFault
     | Some p \<Rightarrow>
         (case load w p of
            Some (Data_blk d) \<Rightarrow> if timer_signo d > 0 then Inr (Fixnum (timer_signo d)) else Inr Nil
          | _ \<Rightarrow> Inl MemoryFault))"

definition mrb_timer_posix_clockid :: "world \<Rightarrow> nat option \<Rightarrow> mrb_error + mrb_value" where
  "mrb_timer_posix_clockid w self =
    (case self of
       None \<Rightarrow> Inl MemoryFault
     | Some p \<Rightarrow>
         (case load w p of
            Some (Data_blk d) \<Rightarrow> Inr (Fixnum (clockid d))
          | _ \<Rightarrow> Inl MemoryFault))"

definition world0 :: world where
  "world0 = \<lparr>heap = [], next_addr = 1, timers = [], next_timer = 0, calls = []\<rparr>"

text \<open>
  What every platform that runs the file guarantees: the real-time signals are a range
  of positive \<^verbatim>\<open>int\<close>s and \<^verbatim>\<open>SIGALRM\<close> is a positive signal number.
\<close>

definition platform_ok :: "platform \<Rightarrow> bool" where
  "platform_ok P =
    (0 < SIGRTMIN P \<and> SIGRTMIN P \<le> SIGRTMAX P \<and> SIGRTMAX P < 2 ^ 31 \<and> 0 < SIGALRM P)"

section \<open>Unsupported-platform branch\<close>

text \<open>
  The \<^verbatim>\<open>#else\<close> branch of the file (\<^verbatim>\<open>__APPLE__\<close>).  \<^verbatim>\<open>mrb_mruby_timer_thread_gem_init\<close> there
  defines the class \<^verbatim>\<open>Timer::POSIX\<close> and registers one method, bound to
  \<^verbatim>\<open>mrb_timer_posix_dummy_start\<close>; the list holds the (class, method) pairs it registers.
\<close>

definition gem_init_unsupported :: "(string \<times> string) list" where
  "gem_init_unsupported = [(''Timer::POSIX'', ''start'')]"

definition mrb_timer_posix_dummy_start :: "world \<Rightarrow> (mrb_error + mrb_value) \<times> world" where
  "mrb_timer_posix_dummy_start w = (Inl (NotImplementedError ''Unsupported platform''), w)"

text \<open>
  Sending a message to a \<^verbatim>\<open>Timer::POSIX\<close> object on that branch.  A registered method
  runs its C function.  For the others the host decides: the class inherits the
  \<^verbatim>\<open>initialize\<close> of the object class, which does nothing, and any other name raises the
  host's error for an undefined method.
\<close>

definition shim_send :: "world \<Rightarrow> string \<Rightarrow> (mrb_error + mrb_value) \<times> world" where
  "shim_send w m =
    (if (''Timer::POSIX'', m) \<in> set gem_init_unsupported then mrb_timer_posix_dummy_start w
     else if m = ''initialize'' then (Inr Nil, w)
     else (Inl (NoMethodError m), w))"

section \<open>Real-time signal tokens\<close>

text \<open>
  The token \<^verbatim>\<open>"RT" + i\<close> of the specification: \<^verbatim>\<open>RT\<close> followed by the decimal digits of
  \<open>i\<close>, without leading zeros.
\<close>

definition digit_char :: "int \<Rightarrow> char" where
  "digit_char d = char_of (48 + d)"

function dec :: "int \<Rightarrow> string" where
  "dec n = (if n < 10 then [digit_char n] else dec (n div 10) @ [digit_char (n mod 10)])"
  by pat_completeness auto
termination
  by (relation "measure nat") auto

declare dec.simps [simp del]

definition rt_token :: "int \<Rightarrow> string" where
  "rt_token i = ''RT'' @ dec i"

text \<open>\<^verbatim>\<open>mrb_float_p\<close>, the test that guards the thread-delivery branch of the source.\<close>

definition mrb_float_p :: "mrb_value \<Rightarrow> bool" where
  "mrb_float_p v = (case v of Float f \<Rightarrow> True | _ \<Rightarrow> False)"

text \<open>The characters \<^verbatim>\<open>0\<close> to \<^verbatim>\<open>9\<close>.\<close>

definition dec_digit :: "char \<Rightarrow> bool" where
  "dec_digit c = (\<exists>d. 0 \<le> d \<and> d < 10 \<and> c = digit_char d)"


section \<open>Reference states\<close>

text \<open>
  The \<^verbatim>\<open>signal\<close> entry of the options of a construction: \<open>None\<close> when the options are
  not a hash or have no such key, \<open>Some Nil\<close> for an explicit "none".
\<close>

definition signal_option :: "mrb_value \<Rightarrow> mrb_value option" where
  "signal_option options =
    (case options of Hash h \<Rightarrow> map_of h MRB_TIMER_POSIX_KEY_SIGNO | _ \<Rightarrow> None)"

text \<open>
  The world after \<^verbatim>\<open>Timer::POSIX.new\<close> without options on Linux, started from the empty
  world: the data block at address 1, the timer block at 2, kernel timer 0.
\<close>

definition world1 :: world where
  "world1 =
    \<lparr>heap = [(2, Timer_blk 0),
             (1, Data_blk \<lparr>timer_ptr = 2, timer_signo = 14, clockid = 0,
                           thread_param_ptr = None\<rparr>)],
     next_addr = 3, timers = [0], next_timer = 1, calls = [Timer_create 0 None]\<rparr>"

section \<open>Properties\<close>

subsection \<open>C integers\<close>

lemma to_int_id: "is_int x \<Longrightarrow> to_int x = x"
  by (simp add: is_int_def to_int_def signed_take_bit_int_eq_self)

lemma int_add_exact: "is_int (a + b) \<Longrightarrow> int_add a b = a + b"
  by (simp add: int_add_def to_int_id)

lemma to_int_range: "is_int (to_int x)"
proof -
  have "- (2 ^ 31) \<le> signed_take_bit 31 x" and "signed_take_bit 31 x < 2 ^ 31"
    by (rule signed_take_bit_int_greater_eq_minus_exp, rule signed_take_bit_int_less_exp)
  then show ?thesis by (simp add: is_int_def to_int_def)
qed

subsection \<open>Arming\<close>

lemma sdiv_nonneg: "0 \<le> a \<Longrightarrow> a sdiv 1000 = a div (1000::int)"
  by (simp add: signed_divide_int_def sgn_if)

lemma smod_nonneg: "0 \<le> a \<Longrightarrow> a smod 1000 = a mod (1000::int)"
  by (simp add: signed_modulo_int_def sgn_if)

lemma div_1000_not_neg: "0 \<le> a \<Longrightarrow> \<not> a div 1000 < (0::int)"
  by (simp add: pos_imp_zdiv_neg_iff)

lemma sdiv_neg_iff: "(a sdiv 1000 < 0) = (a \<le> - (1000::int))"
proof (cases "0 \<le> a")
  case True
  then show ?thesis by (simp add: sdiv_nonneg div_1000_not_neg)
next
  case False
  then have e: "a sdiv 1000 = - ((- a) div 1000)"
    by (simp add: signed_divide_int_def sgn_if)
  have "(0 < (- a) div 1000) = (1000 \<le> - a)"
    by (simp add: pos_imp_zdiv_pos_iff)
  then show ?thesis using e by auto
qed

lemma settime_not_argument_error:
  "fst (settime_or_fail w self ts) \<noteq> Inl (ArgumentError m)"
  by (simp add: settime_or_fail_def split: option.splits prod.splits sum.splits)

lemma settime_logs:
  "timer_of w self = Some t \<Longrightarrow>
     calls (snd (settime_or_fail w self ts)) = calls w @ [Timer_settime t ts]"
  by (simp add: settime_or_fail_def timer_settime_def Let_def
      split: option.splits prod.splits sum.splits)

text \<open>
  The validation of \<^verbatim>\<open>mrb_set_itimerspec\<close> sees the seconds, after the truncating
  division: it rejects a start of \<open>-1000\<close> ms or less and nothing else.
\<close>

lemma start_validation_iff:
  "(fst (mrb_timer_posix_start w self start interval_arg)
      = Inl (ArgumentError ''Values must be 0 or positive''))
    = (start \<le> - 1000)"
proof -
  have i: "\<not> (if 0 \<le> x then x sdiv 1000 else 0) < 0" for x :: int
    by (simp add: sdiv_neg_iff)
  show ?thesis
    by (simp add: mrb_timer_posix_start_def mrb_set_itimerspec_def Let_def i sdiv_neg_iff
        settime_not_argument_error)
qed

lemma timespec_valid_ms:
  "0 \<le> a \<Longrightarrow> timespec_valid \<lparr>tv_sec = a div 1000, tv_nsec = (a mod 1000) * 1000000\<rparr>"
proof -
  assume a: "0 \<le> a"
  have "a mod 1000 \<le> 999" and "0 \<le> a mod 1000" by simp_all
  then have "0 \<le> (a mod 1000) * 1000000" and "(a mod 1000) * 1000000 \<le> 999999999"
    by simp_all
  then show ?thesis using a by (simp add: timespec_valid_def div_1000_not_neg not_less [symmetric])
qed

lemma settime_live:
  assumes "timer_of w self = Some t" and "t \<in> set (timers w)"
    and "timespec_valid (it_value ts)" and "timespec_valid (it_interval ts)"
  shows "settime_or_fail w self ts = (Inr (), w\<lparr>calls := calls w @ [Timer_settime t ts]\<rparr>)"
  using assms by (simp add: settime_or_fail_def timer_settime_def Let_def)

text \<open>
  C4.  For non-negative \<open>start\<close> and \<open>interval\<close> in milliseconds, arming hands the kernel
  the initial expiration (\<open>start div 1000\<close> s, \<open>(start mod 1000) * 1000000\<close> ns) and the
  recurrence interval (\<open>interval div 1000\<close> s, \<open>(interval mod 1000) * 1000000\<close> ns); with
  the interval absent the recurrence interval is zero.  On a handle whose kernel timer
  \<open>t\<close> is live the call succeeds, and the one kernel call it adds is \<^verbatim>\<open>timer_settime\<close> on
  \<open>t\<close> with exactly these values.
\<close>

theorem arm_decomposes_milliseconds:
  "(0 \<le> start \<and> 0 \<le> interval \<longrightarrow>
      mrb_timer_posix_start w self start (Some interval) =
        settime_or_fail w self
          \<lparr>it_value = \<lparr>tv_sec = start div 1000, tv_nsec = (start mod 1000) * 1000000\<rparr>,
           it_interval = \<lparr>tv_sec = interval div 1000,
                          tv_nsec = (interval mod 1000) * 1000000\<rparr>\<rparr>
      \<and> (timer_of w self = Some t \<and> t \<in> set (timers w) \<longrightarrow>
           mrb_timer_posix_start w self start (Some interval) =
             (Inr (),
              w\<lparr>calls := calls w @
                 [Timer_settime t
                    \<lparr>it_value = \<lparr>tv_sec = start div 1000,
                                  tv_nsec = (start mod 1000) * 1000000\<rparr>,
                     it_interval = \<lparr>tv_sec = interval div 1000,
                                     tv_nsec = (interval mod 1000) * 1000000\<rparr>\<rparr>]\<rparr>)))
   \<and> (0 \<le> start \<longrightarrow>
      mrb_timer_posix_start w self start None =
        settime_or_fail w self
          \<lparr>it_value = \<lparr>tv_sec = start div 1000, tv_nsec = (start mod 1000) * 1000000\<rparr>,
           it_interval = \<lparr>tv_sec = 0, tv_nsec = 0\<rparr>\<rparr>
      \<and> (timer_of w self = Some t \<and> t \<in> set (timers w) \<longrightarrow>
           mrb_timer_posix_start w self start None =
             (Inr (),
              w\<lparr>calls := calls w @
                 [Timer_settime t
                    \<lparr>it_value = \<lparr>tv_sec = start div 1000,
                                  tv_nsec = (start mod 1000) * 1000000\<rparr>,
                     it_interval = \<lparr>tv_sec = 0, tv_nsec = 0\<rparr>\<rparr>]\<rparr>)))"
proof -
  have e1: "mrb_timer_posix_start w self start (Some interval) =
        settime_or_fail w self
          \<lparr>it_value = \<lparr>tv_sec = start div 1000, tv_nsec = (start mod 1000) * 1000000\<rparr>,
           it_interval = \<lparr>tv_sec = interval div 1000,
                          tv_nsec = (interval mod 1000) * 1000000\<rparr>\<rparr>"
    if "0 \<le> start" "0 \<le> interval"
    using that
    by (simp add: mrb_timer_posix_start_def mrb_set_itimerspec_def Let_def sdiv_nonneg
        smod_nonneg div_1000_not_neg)
  have e0: "mrb_timer_posix_start w self start None =
        settime_or_fail w self
          \<lparr>it_value = \<lparr>tv_sec = start div 1000, tv_nsec = (start mod 1000) * 1000000\<rparr>,
           it_interval = \<lparr>tv_sec = 0, tv_nsec = 0\<rparr>\<rparr>"
    if "0 \<le> start"
    using that
    by (simp add: mrb_timer_posix_start_def mrb_set_itimerspec_def Let_def sdiv_nonneg
        smod_nonneg div_1000_not_neg)
  have z: "timespec_valid \<lparr>tv_sec = 0, tv_nsec = 0\<rparr>"
    by (simp add: timespec_valid_def)
  have l1: "settime_or_fail w self
          \<lparr>it_value = \<lparr>tv_sec = start div 1000, tv_nsec = (start mod 1000) * 1000000\<rparr>,
           it_interval = \<lparr>tv_sec = interval div 1000,
                          tv_nsec = (interval mod 1000) * 1000000\<rparr>\<rparr>
        = (Inr (),
              w\<lparr>calls := calls w @
                 [Timer_settime t
                    \<lparr>it_value = \<lparr>tv_sec = start div 1000,
                                  tv_nsec = (start mod 1000) * 1000000\<rparr>,
                     it_interval = \<lparr>tv_sec = interval div 1000,
                                     tv_nsec = (interval mod 1000) * 1000000\<rparr>\<rparr>]\<rparr>)"
    if "0 \<le> start" "0 \<le> interval" "timer_of w self = Some t" "t \<in> set (timers w)"
    by (rule settime_live [OF that(3,4)]) (simp_all add: timespec_valid_ms that(1,2))
  have l0: "settime_or_fail w self
          \<lparr>it_value = \<lparr>tv_sec = start div 1000, tv_nsec = (start mod 1000) * 1000000\<rparr>,
           it_interval = \<lparr>tv_sec = 0, tv_nsec = 0\<rparr>\<rparr>
        = (Inr (),
              w\<lparr>calls := calls w @
                 [Timer_settime t
                    \<lparr>it_value = \<lparr>tv_sec = start div 1000,
                                  tv_nsec = (start mod 1000) * 1000000\<rparr>,
                     it_interval = \<lparr>tv_sec = 0, tv_nsec = 0\<rparr>\<rparr>]\<rparr>)"
    if "0 \<le> start" "timer_of w self = Some t" "t \<in> set (timers w)"
    by (rule settime_live [OF that(2,3)]) (simp_all add: timespec_valid_ms that(1) z)
  show ?thesis
    using e1 e0 l1 l0 by presburger
qed

text \<open>
  On the handle a construction without options gives on Linux, at 1500 ms and 250 ms:
  the kernel is handed (1 s, 500,000,000 ns) and (0 s, 250,000,000 ns), and a zero
  interval when the interval is absent.
\<close>

theorem arm_decomposes_milliseconds_witness:
  "mrb_timer_posix_start world1 (Some 1) 1500 (Some 250) =
     (Inr (),
      world1\<lparr>calls := [Timer_create 0 None,
                        Timer_settime 0
                          \<lparr>it_value = \<lparr>tv_sec = 1, tv_nsec = 500000000\<rparr>,
                           it_interval = \<lparr>tv_sec = 0, tv_nsec = 250000000\<rparr>\<rparr>]\<rparr>)
   \<and> mrb_timer_posix_start world1 (Some 1) 1500 None =
     (Inr (),
      world1\<lparr>calls := [Timer_create 0 None,
                        Timer_settime 0
                          \<lparr>it_value = \<lparr>tv_sec = 1, tv_nsec = 500000000\<rparr>,
                           it_interval = \<lparr>tv_sec = 0, tv_nsec = 0\<rparr>\<rparr>]\<rparr>)"
proof -
  have t: "timer_of world1 (Some 1) = Some 0"
    by code_simp
  have m: "0 \<in> set (timers world1)"
    by (simp add: world1_def)
  have c: "calls world1 = [Timer_create 0 None]"
    by (simp add: world1_def)
  have n: "(0::int) \<le> 1500 \<and> (0::int) \<le> 250" and n0: "(0::int) \<le> 1500"
    by simp_all
  note th = arm_decomposes_milliseconds [of 1500 250 world1 "Some 1" 0]
  have a: "mrb_timer_posix_start world1 (Some 1) 1500 (Some 250) =
     (Inr (),
      world1\<lparr>calls := calls world1 @
         [Timer_settime 0
            \<lparr>it_value = \<lparr>tv_sec = 1500 div 1000, tv_nsec = (1500 mod 1000) * 1000000\<rparr>,
             it_interval = \<lparr>tv_sec = 250 div 1000,
                             tv_nsec = (250 mod 1000) * 1000000\<rparr>\<rparr>]\<rparr>)"
    using th n t m by blast
  have b: "mrb_timer_posix_start world1 (Some 1) 1500 None =
     (Inr (),
      world1\<lparr>calls := calls world1 @
         [Timer_settime 0
            \<lparr>it_value = \<lparr>tv_sec = 1500 div 1000, tv_nsec = (1500 mod 1000) * 1000000\<rparr>,
             it_interval = \<lparr>tv_sec = 0, tv_nsec = 0\<rparr>\<rparr>]\<rparr>)"
    using th n0 t m by blast
  show ?thesis
    unfolding a b c by simp
qed

subsection \<open>Signal names\<close>

lemma ifdef_mem: "(n, v) \<in> set (ifdef P m nm) \<Longrightarrow> n = nm"
  by (simp add: ifdef_def split: option.splits)

lemma cld_mem:
  "(n, v) \<in> set (case sigdef P ''SIGCLD'' of Some s \<Rightarrow> [(''CLD'', s)] | None \<Rightarrow> ifdef P ''SIGCHLD'' ''CLD'')
    \<Longrightarrow> n = ''CLD''"
  by (simp add: ifdef_def split: option.splits)

lemma siglist_names:
  assumes "(n, v) \<in> set (siglist P)"
  shows "take 3 n \<noteq> ''SIG'' \<and> take 2 n \<noteq> ''RT'' \<and> cstr n = n \<and> n \<noteq> ''NOSUCHSIGNAL''"
proof -
  have "(n, v) \<in> set (siglist P) \<longrightarrow> ?thesis"
    unfolding siglist_def set_append Un_iff
    apply (intro impI)
    apply (elim disjE)
    apply ((drule ifdef_mem | drule cld_mem | simp add: cstr_def)+)
    done
  then show ?thesis using assms by simp
qed

lemma siglist_scan_None: "(siglist_scan xs nm = None) = (nm \<notin> fst ` set xs)"
  by (induction xs) auto

lemma siglist_scan_Some: "siglist_scan xs nm = Some v \<Longrightarrow> (nm, v) \<in> set xs"
  by (induction xs) (auto split: if_splits)


lemma str_signal_SIG: "take 3 n \<noteq> ''SIG'' \<Longrightarrow> str_signal P (''SIG'' @ n) = str_signal P n"
  by (simp add: str_signal_def)

text \<open>
  C6.  For every name \<open>N\<close> of the signal table, with \<open>v\<close> the number the table gives it,
  resolving \<open>N\<close> and resolving \<^verbatim>\<open>SIG\<close> followed by \<open>N\<close>, as strings or as symbols, give the
  same result, and that result is the signal number \<open>v\<close> (an argument error only if a
  platform gave a name other than \<^verbatim>\<open>EXIT\<close> the number 0).
\<close>

theorem sig_prefix_optional:
  assumes "siglist_scan (siglist P) N = Some v"
  shows "mrb_to_signo P (Str (''SIG'' @ N)) = mrb_to_signo P (Str N)
       \<and> mrb_to_signo P (Symbol (''SIG'' @ N)) = mrb_to_signo P (Symbol N)
       \<and> mrb_to_signo P (Symbol N) = mrb_to_signo P (Str N)
       \<and> mrb_to_signo P (Str N) =
           (if v = 0 \<and> N \<noteq> ''EXIT'' then Inl (ArgumentError ''unsupported signal'')
            else Inr v)"
proof -
  have "(N, v) \<in> set (siglist P)"
    using assms by (rule siglist_scan_Some)
  then have n: "take 3 N \<noteq> ''SIG''" and c: "cstr N = N"
    using siglist_names by blast+
  have p: "cstr (''SIG'' @ N) = ''SIG'' @ N"
    using c by (simp add: cstr_def)
  have e: "str_signal P (cstr (''SIG'' @ N)) = str_signal P (cstr N)"
    unfolding p c by (rule str_signal_SIG [OF n])
  have s: "signm2signo P N = v"
    using assms by (simp add: signm2signo_def)
  have r: "str_signal P (cstr N) =
           (if v = 0 \<and> N \<noteq> ''EXIT'' then Inl (ArgumentError ''unsupported signal'')
            else Inr v)"
    unfolding c using n s by (simp add: str_signal_def)
  show ?thesis
    using e r by (simp add: mrb_to_signo_def)
qed

text \<open>On Linux, \<^verbatim>\<open>SIGUSR1\<close> and \<^verbatim>\<open>USR1\<close> both resolve to 10.\<close>

theorem sig_prefix_optional_witness:
  "siglist_scan (siglist linux) ''USR1'' = Some 10
   \<and> mrb_to_signo linux (Str ''SIGUSR1'') = Inr 10
   \<and> mrb_to_signo linux (Str ''USR1'') = Inr 10
   \<and> mrb_to_signo linux (Symbol ''SIGUSR1'') = Inr 10
   \<and> mrb_to_signo linux (Symbol ''USR1'') = Inr 10"
proof -
  have m: "siglist_scan (siglist linux) ''USR1'' = Some 10"
    by code_simp
  show ?thesis using sig_prefix_optional [OF m] m by simp
qed





subsection \<open>Real-time signal index\<close>

text \<open>
  C10, amended.  For every index that fits a C \<^verbatim>\<open>int\<close>, \<^verbatim>\<open>mrb_rtsignal_get\<close> has no lower
  bound: a negative index gives \<^verbatim>\<open>SIGRTMIN\<close> plus the index, a number below the real-time
  base, without an error; and the function rejects such an index only when the sum
  exceeds \<^verbatim>\<open>SIGRTMAX\<close>.
\<close>

theorem rtsignal_get_no_lower_bound:
  assumes ok: "platform_ok P" and r: "is_int idx"
  shows "(idx < 0 \<longrightarrow>
            mrb_rtsignal_get P idx = Inr (Fixnum (SIGRTMIN P + idx))
            \<and> SIGRTMIN P + idx < SIGRTMIN P)
         \<and> (\<forall>e. mrb_rtsignal_get P idx = Inl e \<longrightarrow> SIGRTMAX P < SIGRTMIN P + idx)"
proof -
  have c: "to_int idx = idx" using r by (rule to_int_id)
  have neg: "idx < 0 \<Longrightarrow> is_int (SIGRTMIN P + idx)"
    using ok r by (simp add: platform_ok_def is_int_def)
  have a: "idx < 0 \<longrightarrow>
            mrb_rtsignal_get P idx = Inr (Fixnum (SIGRTMIN P + idx))
            \<and> SIGRTMIN P + idx < SIGRTMIN P"
    using ok neg by (auto simp: mrb_rtsignal_get_def c int_add_exact platform_ok_def)
  have b: "\<forall>e. mrb_rtsignal_get P idx = Inl e \<longrightarrow> SIGRTMAX P < SIGRTMIN P + idx"
  proof (intro allI impI)
    fix e assume "mrb_rtsignal_get P idx = Inl e"
    then have gt: "SIGRTMAX P < int_add (SIGRTMIN P) idx"
      by (simp add: mrb_rtsignal_get_def c split: if_splits)
    show "SIGRTMAX P < SIGRTMIN P + idx"
    proof (cases "is_int (SIGRTMIN P + idx)")
      case True
      then show ?thesis using gt by (simp add: int_add_exact)
    next
      case False
      then have "2 ^ 31 \<le> SIGRTMIN P + idx"
        using ok r by (simp add: platform_ok_def is_int_def)
      then show ?thesis using ok by (simp add: platform_ok_def)
    qed
  qed
  show ?thesis using a b by blast
qed

lemma platform_ok_linux: "platform_ok linux"
  by (simp add: platform_ok_def linux_def)

text \<open>On Linux, index \<open>-3\<close> gives signal 31, below the base 34.\<close>

theorem rtsignal_get_no_lower_bound_witness:
  "mrb_rtsignal_get linux (- 3) = Inr (Fixnum 31) \<and> (31::int) < SIGRTMIN linux"
proof -
  have r: "is_int (- 3)" by (simp add: is_int_def)
  show ?thesis
    using rtsignal_get_no_lower_bound [OF platform_ok_linux r] by (simp add: linux_def)
qed

text \<open>
  C10 as stated fails for a negative index outside the range of \<^verbatim>\<open>int\<close>, which a 64-bit
  \<^verbatim>\<open>mrb_int\<close> can hold: \<^verbatim>\<open>(int)idx\<close> turns \<open>-4294967196\<close> into 100, and the call is rejected
  although the sum with the index is far below the maximum.
\<close>

theorem rtsignal_get_wide_negative_index_rejected:
  "(- 4294967196 :: int) < 0
   \<and> SIGRTMIN linux + (- 4294967196) \<le> SIGRTMAX linux
   \<and> mrb_rtsignal_get linux (- 4294967196) = Inl (ArgumentError ''RTSignal indx too large'')"
  by (simp add: mrb_rtsignal_get_def linux_def int_add_def to_int_def)

subsection \<open>Unsupported platform\<close>

text \<open>
  C3, amended.  On the unsupported platform the only entry point the facility registers
  is \<^verbatim>\<open>start\<close> (arm); it reports the error "Unsupported platform" of the
  not-implemented kind, and no message sent to a \<^verbatim>\<open>Timer::POSIX\<close> object changes the
  world: no kernel call is made.
\<close>

theorem shim_registers_start_only:
  "((''Timer::POSIX'', m) \<in> set gem_init_unsupported) = (m = ''start'')
   \<and> shim_send w ''start'' = (Inl (NotImplementedError ''Unsupported platform''), w)
   \<and> snd (shim_send w m) = w"
  by (auto simp add: shim_send_def gem_init_unsupported_def mrb_timer_posix_dummy_start_def)

theorem shim_registers_start_only_witness:
  "shim_send world0 ''start'' = (Inl (NotImplementedError ''Unsupported platform''), world0)
   \<and> calls (snd (shim_send world0 ''stop'')) = []"
  using shim_registers_start_only [of "''stop''" world0] by (simp add: world0_def)

text \<open>
  C3 as stated fails: construct, disarm and status are not registered there, so they do
  not report the not-implemented error.
\<close>

theorem shim_other_entry_points:
  "(''Timer::POSIX'', ''initialize'') \<notin> set gem_init_unsupported
   \<and> (''Timer::POSIX'', ''stop'') \<notin> set gem_init_unsupported
   \<and> (''Timer::POSIX'', ''__status_raw'') \<notin> set gem_init_unsupported
   \<and> fst (shim_send world0 ''initialize'') = Inr Nil
   \<and> fst (shim_send world0 ''stop'') = Inl (NoMethodError ''stop'')
   \<and> fst (shim_send world0 ''__status_raw'') = Inl (NoMethodError ''__status_raw'')"
  by (simp add: shim_send_def gem_init_unsupported_def)

subsection \<open>Negative durations\<close>

text \<open>
  C1 fails on the code.  With a start of \<open>-1\<close> ms the seconds are 0 after the truncating
  division, the check of \<^verbatim>\<open>mrb_set_itimerspec\<close> passes, and \<^verbatim>\<open>timer_settime\<close> is called
  with \<open>-1000000\<close> nanoseconds; the failure is the kernel's.  An interval of \<open>-1\<close> ms is
  taken for an absent interval: the timer is set to all zeros and the call succeeds.
  The handle is the one a construction without options gives.
\<close>

theorem negative_ms_reaches_kernel:
  "mrb_timer_posix_init linux world0 None Nil = (Inr (), Some 1, world1)
   \<and> mrb_timer_posix_start world1 (Some 1) (- 1) (Some 0) =
     (Inl (SystemCallError ''timer_settime'' EINVAL),
      world1\<lparr>calls := [Timer_create 0 None,
                        Timer_settime 0 \<lparr>it_value = \<lparr>tv_sec = 0, tv_nsec = - 1000000\<rparr>,
                                         it_interval = \<lparr>tv_sec = 0, tv_nsec = 0\<rparr>\<rparr>]\<rparr>)
   \<and> mrb_timer_posix_start world1 (Some 1) 0 (Some (- 1)) =
     (Inr (),
      world1\<lparr>calls := [Timer_create 0 None,
                        Timer_settime 0 \<lparr>it_value = \<lparr>tv_sec = 0, tv_nsec = 0\<rparr>,
                                         it_interval = \<lparr>tv_sec = 0, tv_nsec = 0\<rparr>\<rparr>]\<rparr>)"
  by code_simp

subsection \<open>Construction\<close>

text \<open>
  C2 fails on the code.  Constructing with the unknown clock id 9999 makes
  \<^verbatim>\<open>timer_create\<close> fail; the construction raises, the handle has no data, and the two
  blocks allocated for the data and the timer stay on the heap.
\<close>

theorem failed_construct_leaks:
  "mrb_timer_posix_init linux world0 None (Hash [(Symbol ''clock_id'', Fixnum 9999)]) =
     (Inl (SystemCallError ''timer_create failed'' EINVAL), None,
      \<lparr>heap = [(2, Uninit), (1, Uninit)], next_addr = 3, timers = [], next_timer = 0,
       calls = [Timer_create 9999 None]\<rparr>)"
  by code_simp

text \<open>Constructing again on a handle releases the old timer and its blocks first.\<close>

lemma reconstruct_releases_old:
  "mrb_timer_posix_init linux world1 (Some 1) Nil =
     (Inr (), Some 3,
      \<lparr>heap = [(4, Timer_blk 1),
               (3, Data_blk \<lparr>timer_ptr = 4, timer_signo = 14, clockid = 0,
                             thread_param_ptr = None\<rparr>)],
       next_addr = 5, timers = [1], next_timer = 2,
       calls = [Timer_create 0 None, Timer_delete 0, Timer_create 0 None]\<rparr>)"
  by code_simp

text \<open>Whenever the creation of the kernel timer fails, two fresh blocks are left behind.\<close>

lemma init_install_failure_leaks:
  assumes "init_install P w None clk sev param = (Inl (SystemCallError m e), s', w')"
  shows "s' = None \<and> length (heap w') = length (heap w) + 2"
  using assms
  by (auto simp: init_install_def mrb_malloc_def timer_create_def Let_def store_def
      split: if_splits prod.splits sum.splits)

lemma free_releases_handle:
  assumes "load w p = Some (Data_blk d)" and "load w (timer_ptr d) = Some (Timer_blk t)"
  shows "\<exists>w'. mrb_timer_posix_free w p = Inr w'
           \<and> t \<notin> set (timers w')
           \<and> p \<notin> fst ` set (heap w')
           \<and> timer_ptr d \<notin> fst ` set (heap w')
           \<and> (\<forall>q. thread_param_ptr d = Some q \<longrightarrow> q \<notin> fst ` set (heap w'))
           \<and> calls w' = calls w @ [Timer_delete t]"
  using assms
  by (auto simp: mrb_timer_posix_free_def mrb_free_def timer_delete_def Let_def
      split: option.splits)

lemma init_install_success:
  assumes "init_install P w self clk sev param = (Inr (), s', w')"
  shows "\<exists>data tp. s' = Some data
           \<and> load w' data =
               Some (Data_blk \<lparr>timer_ptr = tp,
                               timer_signo = (if sigev_signo sev < 0 then SIGALRM P else sigev_signo sev),
                               clockid = clk, thread_param_ptr = param\<rparr>)
           \<and> last (calls w') = Timer_create clk (if sigev_signo sev < 0 then None else Some sev)"
  using assms
  by (auto simp: init_install_def mrb_malloc_def timer_create_def Let_def store_def load_def
      split: if_splits prod.splits sum.splits option.splits)

lemma signo_of_data:
  "load w data = Some (Data_blk d) \<Longrightarrow>
     mrb_timer_posix_signo w (Some data) =
       (if timer_signo d > 0 then Inr (Fixnum (timer_signo d)) else Inr Nil)"
  by (simp add: mrb_timer_posix_signo_def)

lemma init_thread_signo:
  "init_thread P w h sev = (sev', param, w') \<Longrightarrow> sigev_signo sev' = sigev_signo sev"
  by (auto simp: init_thread_def mrb_malloc_def Let_def split: if_splits mrb_value.splits prod.splits)

lemma init_signal_cases:
  assumes "init_signal P h sev = Inr sev'" and "sigev_signo sev = - 1"
  shows "(map_of h MRB_TIMER_POSIX_KEY_SIGNO = None \<longrightarrow> sigev_signo sev' = - 1)
       \<and> (map_of h MRB_TIMER_POSIX_KEY_SIGNO = Some Nil \<longrightarrow> sigev_signo sev' = 0)
       \<and> (\<forall>v. map_of h MRB_TIMER_POSIX_KEY_SIGNO = Some v \<and> v \<noteq> Nil \<longrightarrow>
              mrb_to_signo P v = Inr (sigev_signo sev') \<and> 0 < sigev_signo sev')"
  using assms
  by (auto simp: init_signal_def hash_get_def Let_def split: if_splits sum.splits option.splits)

text \<open>
  C8.  After a successful construction, \<^verbatim>\<open>signo\<close> is "none" when the \<^verbatim>\<open>signal\<close> option was
  given as "none", the number the option resolves to when it was given as a signal, and
  \<^verbatim>\<open>SIGALRM\<close> when it was not given; so it is "none" exactly in the first case.
\<close>

theorem signo_reports_construction_signal:
  assumes ok: "platform_ok P"
    and succ: "fst (mrb_timer_posix_init P w self options) = Inr ()"
  shows "let r = mrb_timer_posix_init P w self options;
             signo = mrb_timer_posix_signo (snd (snd r)) (fst (snd r))
         in (signal_option options = None \<longrightarrow> signo = Inr (Fixnum (SIGALRM P)))
          \<and> (signal_option options = Some Nil \<longrightarrow> signo = Inr Nil)
          \<and> (\<forall>v. signal_option options = Some v \<and> v \<noteq> Nil \<longrightarrow>
                (\<exists>sno. mrb_to_signo P v = Inr sno \<and> signo = Inr (Fixnum sno)))"
proof -
  obtain res s' w' where r: "mrb_timer_posix_init P w self options = (res, s', w')"
    by (cases "mrb_timer_posix_init P w self options") auto
  have alrm: "0 < SIGALRM P" using ok by (simp add: platform_ok_def)
  let ?sev0 = "\<lparr>sigev_notify = ZEROED, sigev_signo = - 1, sival_ptr = None\<rparr>"
  obtain sev clk param wa where
    i: "init_install P wa self clk sev param = (Inr (), s', w')"
    and c1: "signal_option options = None \<longrightarrow> sigev_signo sev = - 1"
    and c2: "signal_option options = Some Nil \<longrightarrow> sigev_signo sev = 0"
    and c3: "\<forall>v. signal_option options = Some v \<and> v \<noteq> Nil \<longrightarrow>
             mrb_to_signo P v = Inr (sigev_signo sev) \<and> 0 < sigev_signo sev"
  proof (cases "\<exists>h. options = Hash h")
    case True
    then obtain h where h: "options = Hash h" by blast
    obtain sev1 where s1: "init_signal P h ?sev0 = Inr sev1"
      using succ h by (cases "init_signal P h ?sev0") (simp_all add: mrb_timer_posix_init_def)
    obtain sev2 param w1 where t: "init_thread P w h sev1 = (sev2, param, w1)"
      by (cases "init_thread P w h sev1") auto
    have i: "init_install P w1 self (init_clock P h) sev2 param = (Inr (), s', w')"
      using r succ h s1 t by (simp add: mrb_timer_posix_init_def)
    have e: "sigev_signo sev2 = sigev_signo sev1"
      using t by (rule init_thread_signo)
    have c: "(map_of h MRB_TIMER_POSIX_KEY_SIGNO = None \<longrightarrow> sigev_signo sev1 = - 1)
       \<and> (map_of h MRB_TIMER_POSIX_KEY_SIGNO = Some Nil \<longrightarrow> sigev_signo sev1 = 0)
       \<and> (\<forall>v. map_of h MRB_TIMER_POSIX_KEY_SIGNO = Some v \<and> v \<noteq> Nil \<longrightarrow>
              mrb_to_signo P v = Inr (sigev_signo sev1) \<and> 0 < sigev_signo sev1)"
      by (rule init_signal_cases [OF s1]) simp
    show thesis
      by (rule that [OF i]) (use c e h in \<open>auto simp: signal_option_def\<close>)
  next
    case False
    then have d: "mrb_timer_posix_init P w self options
                    = init_install P w self (CLOCK_REALTIME P) ?sev0 None"
      by (cases options) (simp_all add: mrb_timer_posix_init_def)
    have n: "signal_option options = None"
      using False by (cases options) (simp_all add: signal_option_def)
    have i: "init_install P w self (CLOCK_REALTIME P) ?sev0 None = (Inr (), s', w')"
      using r succ d by simp
    show thesis
      by (rule that [OF i]) (use n in simp_all)
  qed
  from init_install_success [OF i] obtain data tp where
    s: "s' = Some data"
    and l: "load w' data =
               Some (Data_blk \<lparr>timer_ptr = tp,
                               timer_signo = (if sigev_signo sev < 0 then SIGALRM P else sigev_signo sev),
                               clockid = clk, thread_param_ptr = param\<rparr>)"
    by blast
  have g: "mrb_timer_posix_signo w' s' =
      (if 0 < (if sigev_signo sev < 0 then SIGALRM P else sigev_signo sev)
       then Inr (Fixnum (if sigev_signo sev < 0 then SIGALRM P else sigev_signo sev))
       else Inr Nil)"
    unfolding s using signo_of_data [OF l] by simp
  show ?thesis
    unfolding Let_def r using g alrm c1 c2 c3 by auto
qed

text \<open>On Linux, with \<^verbatim>\<open>{signal: "USR1"}\<close> (signal 10) and with \<^verbatim>\<open>{signal: nil}\<close>.\<close>

theorem signo_reports_construction_signal_witness:
  "(let r = mrb_timer_posix_init linux world0 None (Hash [(Symbol ''signal'', Str ''USR1'')])
    in fst r = Inr ()
       \<and> mrb_to_signo linux (Str ''USR1'') = Inr 10
       \<and> mrb_timer_posix_signo (snd (snd r)) (fst (snd r)) = Inr (Fixnum 10))
   \<and> (let r = mrb_timer_posix_init linux world0 None (Hash [(Symbol ''signal'', Nil)])
      in fst r = Inr () \<and> mrb_timer_posix_signo (snd (snd r)) (fst (snd r)) = Inr Nil)"
proof -
  have ok: "platform_ok linux" by (simp add: platform_ok_def linux_def)
  have s1: "fst (mrb_timer_posix_init linux world0 None (Hash [(Symbol ''signal'', Str ''USR1'')])) = Inr ()"
    by code_simp
  have s2: "fst (mrb_timer_posix_init linux world0 None (Hash [(Symbol ''signal'', Nil)])) = Inr ()"
    by code_simp
  have u: "mrb_to_signo linux (Str ''USR1'') = Inr 10"
    by code_simp
  have o1: "signal_option (Hash [(Symbol ''signal'', Str ''USR1'')]) = Some (Str ''USR1'')"
    by (simp add: signal_option_def MRB_TIMER_POSIX_KEY_SIGNO_def)
  have o2: "signal_option (Hash [(Symbol ''signal'', Nil)]) = Some Nil"
    by (simp add: signal_option_def MRB_TIMER_POSIX_KEY_SIGNO_def)
  show ?thesis
    using signo_reports_construction_signal [OF ok s1] signo_reports_construction_signal [OF ok s2]
      s1 s2 u o1 o2
    by (auto simp: Let_def)
qed

subsection \<open>Thread delivery\<close>

lemma map_of_filter_key:
  "map_of (filter (\<lambda>kv. fst kv \<noteq> k) h) k' = (if k' = k then None else map_of h k')"
  by (induction h) auto

lemma init_thread_not_float:
  "\<not> mrb_float_p (hash_get h MRB_TIMER_POSIX_KEY_THREAD_ID) \<Longrightarrow> init_thread P w h sev = (sev, None, w)"
  by (cases "hash_get h MRB_TIMER_POSIX_KEY_THREAD_ID") (simp_all add: init_thread_def mrb_float_p_def)

lemma init_signal_no_thread:
  assumes "init_signal P h sev = Inr sev'"
  shows "sival_ptr sev' = sival_ptr sev
       \<and> (sigev_notify sev \<noteq> SIGEV_THREAD \<longrightarrow> sigev_notify sev' \<noteq> SIGEV_THREAD)"
  using assms
  by (auto simp: init_signal_def Let_def split: if_splits sum.splits)

text \<open>
  C9.  When the \<^verbatim>\<open>thread_id\<close> option is not a float (an integer, any other value, or
  absent), construction behaves as if the option were not there; on success the handle
  has no notification context, the notification descriptor handed to the kernel, if
  any, is not of the thread kind, and with no \<^verbatim>\<open>signal\<close> option either the kernel gets
  no descriptor at all (its default, a signal to the process) and the handle records
  \<^verbatim>\<open>SIGALRM\<close>.
\<close>

theorem thread_id_needs_float:
  assumes nf: "\<not> mrb_float_p (hash_get h MRB_TIMER_POSIX_KEY_THREAD_ID)"
  shows "mrb_timer_posix_init P w self (Hash h)
           = mrb_timer_posix_init P w self
               (Hash (filter (\<lambda>kv. fst kv \<noteq> MRB_TIMER_POSIX_KEY_THREAD_ID) h))
       \<and> (\<forall>s' w'. mrb_timer_posix_init P w self (Hash h) = (Inr (), s', w') \<longrightarrow>
            (\<exists>data d sevp.
               s' = Some data \<and> load w' data = Some (Data_blk d)
               \<and> thread_param_ptr d = None
               \<and> last (calls w') = Timer_create (clockid d) sevp
               \<and> (\<forall>sev. sevp = Some sev \<longrightarrow>
                     sigev_notify sev \<noteq> SIGEV_THREAD \<and> sival_ptr sev = None)
               \<and> (map_of h MRB_TIMER_POSIX_KEY_SIGNO = None \<longrightarrow>
                     sevp = None \<and> timer_signo d = SIGALRM P)))"
proof -
  let ?k = "MRB_TIMER_POSIX_KEY_THREAD_ID"
  let ?h' = "filter (\<lambda>kv. fst kv \<noteq> ?k) h"
  let ?sev0 = "\<lparr>sigev_notify = ZEROED, sigev_signo = - 1, sival_ptr = None\<rparr>"
  have ks: "MRB_TIMER_POSIX_KEY_SIGNO \<noteq> ?k" and kc: "MRB_TIMER_POSIX_KEY_CLOCK_ID \<noteq> ?k"
    by (simp_all add: MRB_TIMER_POSIX_KEY_SIGNO_def MRB_TIMER_POSIX_KEY_CLOCK_ID_def
        MRB_TIMER_POSIX_KEY_THREAD_ID_def)
  have sg: "init_signal P ?h' sev = init_signal P h sev" for sev
    using ks by (simp add: init_signal_def hash_get_def map_of_filter_key)
  have ck: "init_clock P ?h' = init_clock P h"
    using kc by (simp add: init_clock_def hash_get_def map_of_filter_key)
  have nf': "\<not> mrb_float_p (hash_get ?h' ?k)"
    by (simp add: hash_get_def map_of_filter_key mrb_float_p_def)
  have th: "init_thread P w h sev = (sev, None, w)" for sev
    using nf by (rule init_thread_not_float)
  have th': "init_thread P w ?h' sev = (sev, None, w)" for sev
    using nf' by (rule init_thread_not_float)
  have unfolded: "mrb_timer_posix_init P w self (Hash h) =
      (case init_signal P h ?sev0 of
         Inl e \<Rightarrow> (Inl e, self, w)
       | Inr sev1 \<Rightarrow> init_install P w self (init_clock P h) sev1 None)"
    by (simp add: mrb_timer_posix_init_def th split: sum.splits)
  have a: "mrb_timer_posix_init P w self (Hash h) = mrb_timer_posix_init P w self (Hash ?h')"
    unfolding unfolded by (simp add: mrb_timer_posix_init_def th' sg ck split: sum.splits)
  have b: "\<exists>data d sevp.
               s' = Some data \<and> load w' data = Some (Data_blk d)
               \<and> thread_param_ptr d = None
               \<and> last (calls w') = Timer_create (clockid d) sevp
               \<and> (\<forall>sev. sevp = Some sev \<longrightarrow>
                     sigev_notify sev \<noteq> SIGEV_THREAD \<and> sival_ptr sev = None)
               \<and> (map_of h MRB_TIMER_POSIX_KEY_SIGNO = None \<longrightarrow>
                     sevp = None \<and> timer_signo d = SIGALRM P)"
    if r: "mrb_timer_posix_init P w self (Hash h) = (Inr (), s', w')" for s' w'
  proof -
    obtain sev1 where s1: "init_signal P h ?sev0 = Inr sev1"
      using r unfolding unfolded by (cases "init_signal P h ?sev0") simp_all
    have i: "init_install P w self (init_clock P h) sev1 None = (Inr (), s', w')"
      using r s1 unfolding unfolded by simp
    from init_install_success [OF i] obtain data tp where
      s: "s' = Some data"
      and l: "load w' data =
               Some (Data_blk \<lparr>timer_ptr = tp,
                               timer_signo = (if sigev_signo sev1 < 0 then SIGALRM P
                                              else sigev_signo sev1),
                               clockid = init_clock P h, thread_param_ptr = None\<rparr>)"
      and c: "last (calls w') =
               Timer_create (init_clock P h) (if sigev_signo sev1 < 0 then None else Some sev1)"
      by blast
    have nt: "sival_ptr sev1 = None \<and> sigev_notify sev1 \<noteq> SIGEV_THREAD"
      using init_signal_no_thread [OF s1] by simp
    have ab: "map_of h MRB_TIMER_POSIX_KEY_SIGNO = None \<Longrightarrow> sigev_signo sev1 = - 1"
      using init_signal_cases [OF s1] by simp
    show ?thesis
      using s l c nt ab by auto
  qed
  show ?thesis using a b by blast
qed

text \<open>On Linux, \<^verbatim>\<open>{thread_id: 7}\<close> constructs what no options construct.\<close>

theorem thread_id_needs_float_witness:
  "mrb_timer_posix_init linux world0 None (Hash [(Symbol ''thread_id'', Fixnum 7)])
     = mrb_timer_posix_init linux world0 None (Hash [])
   \<and> mrb_timer_posix_init linux world0 None (Hash [(Symbol ''thread_id'', Fixnum 7)])
     = (Inr (), Some 1, world1)"
proof -
  have nf: "\<not> mrb_float_p (hash_get [(Symbol ''thread_id'', Fixnum 7)] MRB_TIMER_POSIX_KEY_THREAD_ID)"
    by (simp add: mrb_float_p_def hash_get_def MRB_TIMER_POSIX_KEY_THREAD_ID_def)
  have e: "mrb_timer_posix_init linux world0 None (Hash []) = (Inr (), Some 1, world1)"
    by code_simp
  show ?thesis
    using thread_id_needs_float [OF nf, of linux world0 None] e
    by (simp add: MRB_TIMER_POSIX_KEY_THREAD_ID_def)
qed

text \<open>With a float the context is allocated (address 1) and recorded in the handle.\<close>

lemma thread_id_float_allocates:
  "mrb_timer_posix_init linux world0 None (Hash [(Symbol ''thread_id'', Float 7)]) =
     (Inr (), Some 2,
      \<lparr>heap = [(3, Timer_blk 0),
               (2, Data_blk \<lparr>timer_ptr = 3, timer_signo = 14, clockid = 0,
                             thread_param_ptr = Some 1\<rparr>),
               (1, Param_blk \<lparr>param_signo = 14, param_thread_id = Some 7\<rparr>)],
       next_addr = 4, timers = [0], next_timer = 1, calls = [Timer_create 0 None]\<rparr>)"
  by code_simp

subsection \<open>Decimal tokens and \<^verbatim>\<open>strtol\<close>\<close>

lemma of_char_digit_char: "0 \<le> d \<Longrightarrow> d < 10 \<Longrightarrow> (of_char (digit_char d) :: int) = 48 + d"
  by (simp add: digit_char_def)

lemma digit_val_digit_char: "0 \<le> d \<Longrightarrow> d < 10 \<Longrightarrow> digit_val (digit_char d) = Some d"
  by (simp add: digit_val_def of_char_digit_char)

lemma digit_char_plain:
  assumes "0 \<le> d" and "d < 10"
  shows "\<not> isspace (digit_char d)" and "digit_char d \<noteq> CHR ''-''" and "digit_char d \<noteq> CHR ''+''"
    and "digit_char d \<noteq> CHR 0x00" and "digit_char d \<noteq> CHR ''G''"
    and "1 \<le> d \<Longrightarrow> digit_char d \<noteq> CHR ''0''"
proof -
  have v: "(of_char (digit_char d) :: int) = 48 + d"
    using assms by (rule of_char_digit_char)
  have ne: "digit_char d \<noteq> c" if "(of_char c :: int) \<noteq> 48 + d" for c
    using that v by auto
  show "\<not> isspace (digit_char d)"
    using assms ne [of "CHR '' ''"] by (simp add: isspace_def v)
  show "digit_char d \<noteq> CHR ''-''" using assms by (intro ne) simp
  show "digit_char d \<noteq> CHR ''+''" using assms by (intro ne) simp
  show "digit_char d \<noteq> CHR 0x00" using assms by (intro ne) simp
  show "digit_char d \<noteq> CHR ''G''" using assms by (intro ne) simp
  show "digit_char d \<noteq> CHR ''0''" if "1 \<le> d" using that by (intro ne) simp
qed

lemma dec_digitI: "0 \<le> d \<Longrightarrow> d < 10 \<Longrightarrow> dec_digit (digit_char d)"
  unfolding dec_digit_def by blast

lemma dec_digit_not_nul:
  assumes "dec_digit c"
  shows "c \<noteq> CHR 0x00"
proof -
  obtain d where d: "0 \<le> d" "d < 10" "c = digit_char d"
    using assms unfolding dec_digit_def by blast
  show ?thesis unfolding d(3) using d(1,2) by (rule digit_char_plain(4))
qed

lemma strtol_digits_snoc:
  assumes "\<forall>c \<in> set xs. dec_digit c" and "0 \<le> d" and "d < 10"
  shows "strtol_digits 10 acc (xs @ [digit_char d]) = strtol_digits 10 acc xs * 10 + d"
  using assms(1)
proof (induction xs arbitrary: acc)
  case Nil
  then show ?case using assms(2,3) by (simp add: digit_val_digit_char)
next
  case (Cons c cs)
  then obtain e where e: "0 \<le> e" "e < 10" "c = digit_char e"
    by (auto simp: dec_digit_def)
  have "\<forall>c \<in> set cs. dec_digit c" using Cons.prems by simp
  then show ?case using Cons.IH e by (simp add: digit_val_digit_char)
qed

lemma dec_digits:
  "0 \<le> n \<Longrightarrow> (\<forall>c \<in> set (dec n). dec_digit c) \<and> strtol_digits 10 0 (dec n) = n"
proof (induction n rule: dec.induct)
  case (1 n)
  show ?case
  proof (cases "n < 10")
    case True
    then have d: "dec n = [digit_char n]" by (subst dec.simps) simp
    show ?thesis using True 1(2) unfolding d
      by (simp add: dec_digitI digit_val_digit_char)
  next
    case False
    then have d: "dec n = dec (n div 10) @ [digit_char (n mod 10)]"
      by (subst dec.simps) simp
    have q: "0 \<le> n div 10" using 1(2) by simp
    have ih: "(\<forall>c \<in> set (dec (n div 10)). dec_digit c)
               \<and> strtol_digits 10 0 (dec (n div 10)) = n div 10"
      using 1(1) [OF False q] .
    have m: "0 \<le> n mod 10" "n mod 10 < 10" by simp_all
    have "strtol_digits 10 0 (dec n) = (n div 10) * 10 + n mod 10"
      unfolding d using strtol_digits_snoc [OF conjunct1 [OF ih] m] ih by simp
    moreover have "\<forall>c \<in> set (dec n). dec_digit c"
      unfolding d using ih dec_digitI [OF m] by simp
    ultimately show ?thesis by simp
  qed
qed

lemma dec_hd: "1 \<le> n \<Longrightarrow> \<exists>d r. dec n = digit_char d # r \<and> 1 \<le> d \<and> d < 10"
proof (induction n rule: dec.induct)
  case (1 n)
  show ?case
  proof (cases "n < 10")
    case True
    then have "dec n = [digit_char n]" by (subst dec.simps) simp
    then show ?thesis using True 1(2) by blast
  next
    case False
    then have d: "dec n = dec (n div 10) @ [digit_char (n mod 10)]"
      by (subst dec.simps) simp
    have "1 \<le> n div 10" using False by simp
    from 1(1) [OF False this] obtain e r where "dec (n div 10) = digit_char e # r" "1 \<le> e" "e < 10"
      by blast
    then show ?thesis unfolding d by auto
  qed
qed

lemma strtol_dec:
  assumes "1 \<le> n"
  shows "strtol (dec n) = min n LONG_MAX"
proof -
  obtain d r where h: "dec n = digit_char d # r" and d: "1 \<le> d" "d < 10"
    using dec_hd [OF assms] by blast
  have d0: "0 \<le> d" using d by simp
  have v: "strtol_digits 10 0 (digit_char d # r) = n"
    using dec_digits [of n] assms unfolding h by simp
  note p = digit_char_plain [OF d0 d(2)]
  show ?thesis
    unfolding h strtol_def using p d(1) v by (simp add: Let_def)
qed

lemma cstr_dec: "0 \<le> n \<Longrightarrow> cstr (dec n) = dec n"
proof -
  assume "0 \<le> n"
  then have "\<forall>c \<in> set (dec n). dec_digit c" using dec_digits by blast
  then have "\<forall>c \<in> set (dec n). c \<noteq> CHR 0x00"
    using dec_digit_not_nul by blast
  then show ?thesis by (simp add: cstr_def)
qed

subsection \<open>Real-time signal tokens\<close>

lemma siglist_scan_rt: "take 2 nm = ''RT'' \<Longrightarrow> siglist_scan (siglist P) nm = None"
proof -
  assume rt: "take 2 nm = ''RT''"
  have "nm \<notin> fst ` set (siglist P)"
  proof
    assume "nm \<in> fst ` set (siglist P)"
    then obtain v where "(nm, v) \<in> set (siglist P)" by auto
    from siglist_names [OF this] rt show False by simp
  qed
  then show ?thesis by (simp add: siglist_scan_None)
qed

lemma signm2signo_rt_token:
  assumes "1 \<le> i"
  shows "signm2signo P (rt_token i) =
          (let ret = to_int (min i LONG_MAX)
           in if ret = 0 \<or> int_add (SIGRTMIN P) ret > SIGRTMAX P then 0
              else int_add (SIGRTMIN P) ret)"
proof -
  obtain d r where h: "dec i = digit_char d # r" and d: "1 \<le> d" "d < 10"
    using dec_hd [OF assms] by blast
  have d0: "0 \<le> d" using d by simp
  have z: "digit_char d \<noteq> CHR ''0''"
    using digit_char_plain(6) [OF d0 d(2) d(1)] .
  have n0: "rt_token i \<noteq> ''RT0''"
    unfolding rt_token_def h using z by simp
  have t2: "take 2 (rt_token i) = ''RT''" by (simp add: rt_token_def)
  have d2: "drop 2 (rt_token i) = dec i" by (simp add: rt_token_def)
  show ?thesis
    unfolding signm2signo_def siglist_scan_rt [OF t2] d2 strtol_dec [OF assms]
    using n0 t2 by simp
qed

lemma str_signal_rt_token:
  assumes "1 \<le> i"
  shows "str_signal P (cstr (rt_token i)) =
          (if signm2signo P (rt_token i) = 0 then Inl (ArgumentError ''unsupported signal'')
           else Inr (signm2signo P (rt_token i)))"
proof -
  have i0: "0 \<le> i" using assms by simp
  have c: "cstr (rt_token i) = rt_token i"
    using cstr_dec [OF i0] by (simp add: rt_token_def cstr_def)
  obtain d r where h: "dec i = digit_char d # r" and d: "1 \<le> d" "d < 10"
    using dec_hd [OF assms] by blast
  have d0: "0 \<le> d" using d by simp
  have g: "digit_char d \<noteq> CHR ''G''"
    using digit_char_plain(5) [OF d0 d(2)] .
  have t3: "take 3 (rt_token i) \<noteq> ''SIG''"
    unfolding rt_token_def h by simp
  have ne: "rt_token i \<noteq> ''EXIT''"
    unfolding rt_token_def by simp
  show ?thesis
    unfolding c str_signal_def using t3 ne by (simp add: Let_def)
qed

lemma rt0_resolves:
  assumes ok: "platform_ok P"
  shows "mrb_to_signo P (Str (rt_token 0)) = Inr (SIGRTMIN P)"
proof -
  have t: "rt_token 0 = ''RT0''"
    by code_simp
  have s: "signm2signo P ''RT0'' = SIGRTMIN P"
    using siglist_scan_rt [of "''RT0''" P] by (simp add: signm2signo_def)
  show ?thesis
    unfolding t using ok s
    by (simp add: mrb_to_signo_def cstr_def str_signal_def platform_ok_def)
qed

text \<open>
  Within the range of \<^verbatim>\<open>int\<close> the two paths agree.  For an index with \<^verbatim>\<open>SIGRTMIN\<close> plus the index within the
  platform maximum, the token and \<^verbatim>\<open>mrb_rtsignal_get\<close> give the same signal number;
  when the sum exceeds the maximum and still fits an \<^verbatim>\<open>int\<close>, both raise an argument
  error.
\<close>

lemma rt_token_agrees_in_range:
  assumes ok: "platform_ok P" and i0: "0 \<le> i" and le: "SIGRTMIN P + i \<le> SIGRTMAX P"
  shows "mrb_to_signo P (Str (rt_token i)) = Inr (SIGRTMIN P + i)
       \<and> mrb_rtsignal_get P i = Inr (Fixnum (SIGRTMIN P + i))"
proof -
  have ri: "is_int i" using ok i0 le by (simp add: platform_ok_def is_int_def)
  have rs: "is_int (SIGRTMIN P + i)" using ok i0 le by (simp add: platform_ok_def is_int_def)
  have g: "mrb_rtsignal_get P i = Inr (Fixnum (SIGRTMIN P + i))"
    using le by (simp add: mrb_rtsignal_get_def to_int_id [OF ri] int_add_exact [OF rs])
  have t: "mrb_to_signo P (Str (rt_token i)) = Inr (SIGRTMIN P + i)"
  proof (cases "i = 0")
    case True
    then show ?thesis using rt0_resolves [OF ok] by simp
  next
    case False
    then have i1: "1 \<le> i" using i0 by simp
    have m: "min i LONG_MAX = i" using ri by (simp add: is_int_def LONG_MAX_def)
    have "signm2signo P (rt_token i) = SIGRTMIN P + i"
      unfolding signm2signo_rt_token [OF i1] m
      using False le by (simp add: to_int_id [OF ri] int_add_exact [OF rs])
    moreover have "SIGRTMIN P + i \<noteq> 0" using ok i0 by (simp add: platform_ok_def)
    ultimately show ?thesis
      by (simp add: mrb_to_signo_def str_signal_rt_token [OF i1])
  qed
  show ?thesis using t g by simp
qed

lemma rt_token_agrees_out_of_range:
  assumes ok: "platform_ok P" and gt: "SIGRTMAX P < SIGRTMIN P + i"
    and fit: "SIGRTMIN P + i < 2 ^ 31"
  shows "mrb_to_signo P (Str (rt_token i)) = Inl (ArgumentError ''unsupported signal'')
       \<and> mrb_rtsignal_get P i = Inl (ArgumentError ''RTSignal indx too large'')"
proof -
  have i1: "1 \<le> i" using ok gt by (simp add: platform_ok_def)
  have ri: "is_int i" using ok i1 fit by (simp add: platform_ok_def is_int_def)
  have rs: "is_int (SIGRTMIN P + i)" using ok i1 fit by (simp add: platform_ok_def is_int_def)
  have g: "mrb_rtsignal_get P i = Inl (ArgumentError ''RTSignal indx too large'')"
    using gt by (simp add: mrb_rtsignal_get_def to_int_id [OF ri] int_add_exact [OF rs])
  have m: "min i LONG_MAX = i" using ri by (simp add: is_int_def LONG_MAX_def)
  have "signm2signo P (rt_token i) = 0"
    unfolding signm2signo_rt_token [OF i1] m
    using gt by (simp add: to_int_id [OF ri] int_add_exact [OF rs])
  then have "mrb_to_signo P (Str (rt_token i)) = Inl (ArgumentError ''unsupported signal'')"
    by (simp add: mrb_to_signo_def str_signal_rt_token [OF i1])
  then show ?thesis using g by simp
qed

text \<open>
  C5 fails on the code for an index beyond the range of \<^verbatim>\<open>int\<close>.  The token
  \<^verbatim>\<open>RT4294967297\<close> names an index whose sum with the base exceeds the maximum, but
  \<^verbatim>\<open>(int)strtol(...)\<close> keeps the low 32 bits, which are 1, and the token resolves to
  signal 35 like \<^verbatim>\<open>RT1\<close> instead of failing; \<^verbatim>\<open>mrb_rtsignal_get\<close> does the same with
  the index in a 64-bit \<^verbatim>\<open>mrb_int\<close>.
\<close>

theorem rt_token_wraps_around:
  "rt_token 4294967297 = ''RT4294967297''
   \<and> SIGRTMAX linux < SIGRTMIN linux + 4294967297
   \<and> mrb_to_signo linux (Str (rt_token 4294967297)) = Inr 35
   \<and> mrb_to_signo linux (Str (rt_token 1)) = Inr 35
   \<and> mrb_rtsignal_get linux 4294967297 = Inr (Fixnum 35)"
  by code_simp

end
